theory Spec2Isabelle
  imports Complex_Main
begin

chapter \<open>The programs\<close>

section \<open>Conventions of the embedding\<close>

text \<open>
  The repository is a collection of independent TypeScript demonstrations. Each one is
  embedded on its own:
  \<^item> a class with fields is a record, a family of classes behind one interface is a
    datatype with one constructor per class;
  \<^item> an object whose identity matters carries the number it was given when it was
    allocated, so two objects of one class are different values and \<open>=\<close> on objects is
    the identity comparison of the language;
  \<^item> \<open>console.log\<close> appends one entry to the console, a list of lines, oldest first;
  \<^item> a \<open>throw\<close> is the \<open>Inl\<close> branch of a sum type;
  \<^item> a \<open>number\<close> on which the program computes is a value of the type \<open>number\<close> below,
    the doubles of IEEE 754 with their rounding, their two zeros, their infinities and
    NaN. The weather station only stores and hands on its two numbers; there a number is
    the real value of a finite double;
  \<^item> a string that a caller supplies, or that the program inspects, is a list of UTF-16
    code units. The music player and the weather station print fixed texts only; their
    lines are kept as lists of characters, one character for each code unit, all of them
    in the range 0..255. The lines that the displays of the weather station print are not
    modelled.
\<close>

definition console_log :: "'a \<Rightarrow> 'a list \<Rightarrow> 'a list" where
  "console_log line out = out @ [line]"

section \<open>Builtins of the language\<close>

subsection \<open>Numbers as text\<close>

definition digit_char :: "nat \<Rightarrow> char" where
  "digit_char d = char_of (48 + d)"

fun decimal :: "nat \<Rightarrow> string" where
  "decimal n = (if n < 10 then [digit_char n] else decimal (n div 10) @ [digit_char (n mod 10)])"

declare decimal.simps [simp del]

text \<open>
  \<open>Number::toString\<close>, as a template literal applies it, on the real value of a finite
  double. The language prints the shortest decimal digits that read back as the same
  double. For a whole number of absolute value up to \<open>2^53\<close> these are all its digits:
  the doubles next to it are at least 1 away, so no other whole number reads back as
  it. For every other number the digits depend on the doubles around it; that part is
  the parameter \<open>ns\<close> of the model.
\<close>

definition Number_toString :: "(real \<Rightarrow> string) \<Rightarrow> real \<Rightarrow> string" where
  "Number_toString ns x =
     (if x = of_int \<lfloor>x\<rfloor> \<and> \<bar>x\<bar> \<le> 2 ^ 53
      then (if x < 0 then ''-'' else []) @ decimal (nat \<bar>\<lfloor>x\<rfloor>\<bar>)
      else ns x)"

text \<open>
  Where every number that is printed is a whole number, the parameter is never consulted.
  The examples pass this function for it.
\<close>

definition not_consulted :: "real \<Rightarrow> string" where
  "not_consulted x = []"

subsection \<open>Arrays\<close>

text \<open>
  \<open>Array.prototype.indexOf\<close>: the first index whose element is the one searched for,
  and \<open>-1\<close> when there is none.
\<close>

fun indexOf_from :: "'a list \<Rightarrow> 'a \<Rightarrow> nat \<Rightarrow> int" where
  "indexOf_from [] x k = - 1"
| "indexOf_from (y # ys) x k = (if y = x then int k else indexOf_from ys x (Suc k))"

definition indexOf :: "'a list \<Rightarrow> 'a \<Rightarrow> int" where
  "indexOf xs x = indexOf_from xs x 0"

text \<open>
  \<open>Array.prototype.splice(start, deleteCount)\<close> for \<open>start\<close> within the array: the
  array without the \<open>deleteCount\<close> elements from \<open>start\<close> on.
\<close>

definition splice :: "'a list \<Rightarrow> nat \<Rightarrow> nat \<Rightarrow> 'a list" where
  "splice xs start deleteCount = take start xs @ drop (start + deleteCount) xs"

subsection \<open>Numbers\<close>

text \<open>
  A number of the language is a double: NaN, one of the two infinities, the negative
  zero, or a finite double other than the negative zero, given by its real value. The
  doubles of a magnitude \<open>x\<close> with \<open>2^e \<le> x < 2^(e+1)\<close> are the multiples of
  \<open>2^(e-52)\<close>, and below \<open>2^(-1022)\<close> the multiples of \<open>2^(-1074)\<close>.
\<close>

datatype number = Val real | NegZero | Infinity | NegInfinity | NaN

definition binade :: "real \<Rightarrow> int" where
  "binade x = \<lfloor>log 2 x\<rfloor>"

definition quantum :: "real \<Rightarrow> real" where
  "quantum x = 2 powi (max (binade x) (- 1022) - 52)"

text \<open>Rounding to the nearest integer, to the even one of two that are equally near.\<close>

definition round_ties_even :: "real \<Rightarrow> int" where
  "round_ties_even y =
     (let n = \<lfloor>y\<rfloor>; d = y - of_int n
      in if d < 1 / 2 then n else if 1 / 2 < d then n + 1 else if even n then n else n + 1)"

text \<open>The multiple of the quantum nearest to a positive real.\<close>

definition nearest :: "real \<Rightarrow> real" where
  "nearest x = of_int (round_ties_even (x / quantum x)) * quantum x"

text \<open>
  The Number value for a real \<open>x\<close>: the double nearest to \<open>x\<close>, the one with the even
  significand when two are equally near; an infinity when that is \<open>2^1024\<close> in
  magnitude; and the zero with the sign of \<open>x\<close> when it is zero.
\<close>

definition overflow :: real where
  "overflow = 2 powi 1024"

definition Number_for :: "real \<Rightarrow> number" where
  "Number_for x =
     (if x = 0 then Val 0
      else
        let m = nearest \<bar>x\<bar>
        in if overflow \<le> m then (if x < 0 then NegInfinity else Infinity)
           else if m = 0 then (if x < 0 then NegZero else Val 0)
           else Val (if x < 0 then - m else m))"

text \<open>A real is a double when it is its own Number value.\<close>

definition is_double :: "real \<Rightarrow> bool" where
  "is_double x \<longleftrightarrow> Number_for x = Val x"

fun negative :: "number \<Rightarrow> bool" where
  "negative (Val x) = (x < 0)"
| "negative NegZero = True"
| "negative Infinity = False"
| "negative NegInfinity = True"
| "negative NaN = False"

fun is_zero :: "number \<Rightarrow> bool" where
  "is_zero (Val x) = (x = 0)"
| "is_zero NegZero = True"
| "is_zero _ = False"

fun is_infinite :: "number \<Rightarrow> bool" where
  "is_infinite Infinity = True"
| "is_infinite NegInfinity = True"
| "is_infinite _ = False"

text \<open>The real value of a finite number.\<close>

fun value_of :: "number \<Rightarrow> real" where
  "value_of (Val x) = x"
| "value_of _ = 0"

definition signed_zero :: "bool \<Rightarrow> number" where
  "signed_zero neg = (if neg then NegZero else Val 0)"

definition signed_infinity :: "bool \<Rightarrow> number" where
  "signed_infinity neg = (if neg then NegInfinity else Infinity)"

text \<open>\<open>Number::add\<close>, the operator \<open>+\<close> on two numbers.\<close>

definition Number_add :: "number \<Rightarrow> number \<Rightarrow> number" where
  "Number_add a b =
     (if a = NaN \<or> b = NaN then NaN
      else if is_infinite a \<and> is_infinite b then (if a = b then a else NaN)
      else if is_infinite a then a
      else if is_infinite b then b
      else if a = NegZero \<and> b = NegZero then NegZero
      else if value_of a + value_of b = 0 then Val 0
      else Number_for (value_of a + value_of b))"


text \<open>\<open>Number::divide\<close>, the operator \<open>/\<close>.\<close>

definition Number_divide :: "number \<Rightarrow> number \<Rightarrow> number" where
  "Number_divide a b =
     (if a = NaN \<or> b = NaN then NaN
      else if (is_infinite a \<and> is_infinite b) \<or> (is_zero a \<and> is_zero b) then NaN
      else if is_infinite a \<or> is_zero b then signed_infinity (negative a \<noteq> negative b)
      else if is_infinite b \<or> is_zero a then signed_zero (negative a \<noteq> negative b)
      else Number_for (value_of a / value_of b))"




text \<open>\<open>Number::toString\<close> on all numbers.\<close>

fun ToString :: "(real \<Rightarrow> string) \<Rightarrow> number \<Rightarrow> string" where
  "ToString ns (Val x) = Number_toString ns x"
| "ToString ns NegZero = ''0''"
| "ToString ns Infinity = ''Infinity''"
| "ToString ns NegInfinity = ''-Infinity''"
| "ToString ns NaN = ''NaN''"

text \<open>
  \<open>Number.prototype.toFixed\<close> with \<open>f\<close> fraction digits (\<open>f \<le> 100\<close>; the one call of
  the source has \<open>f = 1\<close>). A number that is not finite is printed by \<open>ToString\<close>. For
  a finite one with the real value \<open>x\<close>: the sign, then the integer \<open>n\<close> closest to
  \<open>\<bar>x\<bar> * 10^f\<close>, the larger one on a tie, padded with zeros to \<open>f + 1\<close> digits, with the
  point before the last \<open>f\<close> digits.
\<close>

definition toFixed_finite :: "(real \<Rightarrow> string) \<Rightarrow> real \<Rightarrow> nat \<Rightarrow> string" where
  "toFixed_finite ns x f =
     (let s = (if x < 0 then ''-'' else []);
          y = \<bar>x\<bar>
      in if y \<ge> 10 ^ 21 then s @ Number_toString ns y
         else
           let n = nat \<lfloor>y * 10 ^ f + 1 / 2\<rfloor>;
               m = decimal n;
               m = (if length m \<le> f then replicate (f + 1 - length m) CHR ''0'' @ m else m);
               k = length m
           in if f = 0 then s @ m
              else s @ take (k - f) m @ ''.'' @ drop (k - f) m)"

fun toFixed :: "(real \<Rightarrow> string) \<Rightarrow> number \<Rightarrow> nat \<Rightarrow> string" where
  "toFixed ns (Val x) f = toFixed_finite ns x f"
| "toFixed ns NegZero f = toFixed_finite ns 0 f"
| "toFixed ns a f = ToString ns a"

subsection \<open>Strings\<close>

text \<open>
  A string of the language is a sequence of UTF-16 code units, numbers below \<open>2^16\<close>.
  The type of the model does not enforce the bound. \<open>utf16\<close> gives the code units of a
  text of the source that is written in ASCII.
\<close>

type_synonym js_string = "nat list"

definition utf16 :: "string \<Rightarrow> js_string" where
  "utf16 s = map of_char s"

datatype error = Error js_string

text \<open>
  The code points of a string: a leading surrogate followed by a trailing one stands
  for one code point beyond the first plane, every other code unit for itself.
\<close>

fun code_points :: "js_string \<Rightarrow> nat list" where
  "code_points [] = []"
| "code_points [u] = [u]"
| "code_points (u # l # rest) =
     (if 0xD800 \<le> u \<and> u \<le> 0xDBFF \<and> 0xDC00 \<le> l \<and> l \<le> 0xDFFF
      then (0x10000 + (u - 0xD800) * 0x400 + (l - 0xDC00)) # code_points rest
      else u # code_points (l # rest))"

definition code_units :: "nat \<Rightarrow> js_string" where
  "code_units c =
     (if c < 0x10000 then [c]
      else [0xD800 + (c - 0x10000) div 0x400, 0xDC00 + (c - 0x10000) mod 0x400])"

text \<open>
  \<open>String.prototype.toUpperCase\<close> maps every code point of the string by the upper case
  mapping of Unicode, which gives one or more code points for each. Within ASCII the
  letters \<open>a..z\<close> go to \<open>A..Z\<close> and nothing else changes. Beyond ASCII, the table below has
  the seventeen code points whose mapping contains a character of ASCII. The mapping of
  all the others is the parameter \<open>uc\<close> of the model; it never yields nothing, and never
  a character of ASCII.
\<close>

definition special_upper :: "(nat \<times> nat list) list" where
  "special_upper =
     [(0xDF, [0x53, 0x53]), (0x131, [0x49]), (0x149, [0x2BC, 0x4E]), (0x17F, [0x53]),
      (0x1F0, [0x4A, 0x30C]), (0x1E96, [0x48, 0x331]), (0x1E97, [0x54, 0x308]),
      (0x1E98, [0x57, 0x30A]), (0x1E99, [0x59, 0x30A]), (0x1E9A, [0x41, 0x2BE]),
      (0xFB00, [0x46, 0x46]), (0xFB01, [0x46, 0x49]), (0xFB02, [0x46, 0x4C]),
      (0xFB03, [0x46, 0x46, 0x49]), (0xFB04, [0x46, 0x46, 0x4C]), (0xFB05, [0x53, 0x54]),
      (0xFB06, [0x53, 0x54])]"

definition upper_of :: "(nat \<Rightarrow> nat list) \<Rightarrow> nat \<Rightarrow> nat list" where
  "upper_of uc c =
     (if c < 128 then (if 97 \<le> c \<and> c \<le> 122 then [c - 32] else [c])
      else case map_of special_upper c of Some us \<Rightarrow> us | None \<Rightarrow> uc c)"

definition toUpperCase :: "(nat \<Rightarrow> nat list) \<Rightarrow> js_string \<Rightarrow> js_string" where
  "toUpperCase uc s = concat (map code_units (concat (map (upper_of uc) (code_points s))))"

text \<open>What the language guarantees of the part of the mapping that is a parameter.\<close>

definition beyond_ascii :: "(nat \<Rightarrow> nat list) \<Rightarrow> bool" where
  "beyond_ascii uc \<longleftrightarrow> (\<forall>c. 128 \<le> c \<longrightarrow> uc c \<noteq> [] \<and> (\<forall>u \<in> set (uc c). 128 \<le> u))"

text \<open>A mapping with this property, for the examples: it changes nothing.\<close>

definition unchanged :: "nat \<Rightarrow> nat list" where
  "unchanged c = [c]"

text \<open>
  \<open>String.prototype.trim\<close> removes white space and line terminators from both ends.
  These are: tab, line feed, vertical tab, form feed, carriage return, the space, the
  no-break space, the ogham space mark, the spaces \<open>U+2000\<close> to \<open>U+200A\<close>, the line and
  the paragraph separator, the narrow no-break space, the medium mathematical space,
  the ideographic space and the byte order mark. Each is one code unit.
\<close>

definition is_white_space :: "nat \<Rightarrow> bool" where
  "is_white_space c \<longleftrightarrow>
     c \<in> {0x9, 0xA, 0xB, 0xC, 0xD, 0x20, 0xA0, 0x1680, 0x2028, 0x2029, 0x202F, 0x205F,
          0x3000, 0xFEFF} \<or>
     (0x2000 \<le> c \<and> c \<le> 0x200A)"

definition trim :: "js_string \<Rightarrow> js_string" where
  "trim s = rev (dropWhile is_white_space (rev (dropWhile is_white_space s)))"

section \<open>State pattern: the music player\<close>

text \<open>
  The three state classes hold no data. An object of one of them is the class together
  with the identity of the object.
\<close>

datatype PlayerState =
    is_StoppedState: StoppedState nat
  | is_PlayingState: PlayingState nat
  | is_PausedState: PausedState nat

record MusicPlayer =
  stoppedState :: PlayerState
  playingState :: PlayerState
  pausedState :: PlayerState
  currentState :: PlayerState

text \<open>
  What the program has besides the player: the number of objects allocated so far and
  the console.
\<close>

record runtime =
  allocated :: nat
  console :: "string list"

definition rt_log :: "string \<Rightarrow> runtime \<Rightarrow> runtime" where
  "rt_log line rt = rt\<lparr>console := console_log line (console rt)\<rparr>"

definition setState :: "MusicPlayer \<Rightarrow> PlayerState \<Rightarrow> MusicPlayer" where
  "setState player state = player\<lparr>currentState := state\<rparr>"

definition getStoppedState :: "MusicPlayer \<Rightarrow> PlayerState" where
  "getStoppedState player = stoppedState player"

definition getPlayingState :: "MusicPlayer \<Rightarrow> PlayerState" where
  "getPlayingState player = playingState player"

definition getPausedState :: "MusicPlayer \<Rightarrow> PlayerState" where
  "getPausedState player = pausedState player"

text \<open>
  The methods of the state classes. Each takes the receiving state object, the player
  and the runtime, and returns the player and the runtime it leaves behind.
\<close>

fun PlayerState_pressPlay ::
  "PlayerState \<Rightarrow> MusicPlayer \<Rightarrow> runtime \<Rightarrow> MusicPlayer \<times> runtime" where
  "PlayerState_pressPlay (StoppedState _) player rt =
     (setState player (getPlayingState player),
      rt_log ''Starting music from the beginning...'' rt)"
| "PlayerState_pressPlay (PlayingState _) player rt =
     (player, rt_log ''Already playing music.'' rt)"
| "PlayerState_pressPlay (PausedState _) player rt =
     (setState player (getPlayingState player), rt_log ''Resuming music...'' rt)"

fun PlayerState_pressPause ::
  "PlayerState \<Rightarrow> MusicPlayer \<Rightarrow> runtime \<Rightarrow> MusicPlayer \<times> runtime" where
  "PlayerState_pressPause (StoppedState _) player rt =
     (player, rt_log ''Cannot pause. The player is currently stopped.'' rt)"
| "PlayerState_pressPause (PlayingState _) player rt =
     (setState player (getPausedState player), rt_log ''Music paused.'' rt)"
| "PlayerState_pressPause (PausedState _) player rt =
     (player, rt_log ''Already paused.'' rt)"

fun PlayerState_pressStop ::
  "PlayerState \<Rightarrow> MusicPlayer \<Rightarrow> runtime \<Rightarrow> MusicPlayer \<times> runtime" where
  "PlayerState_pressStop (StoppedState _) player rt =
     (player, rt_log ''Already stopped.'' rt)"
| "PlayerState_pressStop (PlayingState _) player rt =
     (setState player (getStoppedState player),
      rt_log ''Stopping music and resetting track.'' rt)"
| "PlayerState_pressStop (PausedState _) player rt =
     (setState player (getStoppedState player),
      rt_log ''Stopping music and resetting track.'' rt)"

text \<open>
  \<open>new MusicPlayer()\<close>: the player object is allocated, then the constructor allocates
  one object of each state class and starts in the stopped one.
\<close>

definition new_MusicPlayer :: "runtime \<Rightarrow> MusicPlayer \<times> runtime" where
  "new_MusicPlayer rt =
     (let n = allocated rt;
          stopped = StoppedState (n + 1);
          playing = PlayingState (n + 2);
          paused = PausedState (n + 3)
      in (\<lparr>stoppedState = stopped, playingState = playing, pausedState = paused,
           currentState = stopped\<rparr>,
          rt\<lparr>allocated := n + 4\<rparr>))"

text \<open>The buttons of the player delegate to the current state.\<close>

definition pressPlay :: "MusicPlayer \<Rightarrow> runtime \<Rightarrow> MusicPlayer \<times> runtime" where
  "pressPlay player rt = PlayerState_pressPlay (currentState player) player rt"

definition pressPause :: "MusicPlayer \<Rightarrow> runtime \<Rightarrow> MusicPlayer \<times> runtime" where
  "pressPause player rt = PlayerState_pressPause (currentState player) player rt"

definition pressStop :: "MusicPlayer \<Rightarrow> runtime \<Rightarrow> MusicPlayer \<times> runtime" where
  "pressStop player rt = PlayerState_pressStop (currentState player) player rt"

text \<open>A finite sequence of button presses, run from left to right.\<close>

datatype button = Play | Pause | Stop

fun press :: "button \<Rightarrow> MusicPlayer \<times> runtime \<Rightarrow> MusicPlayer \<times> runtime" where
  "press Play (player, rt) = pressPlay player rt"
| "press Pause (player, rt) = pressPause player rt"
| "press Stop (player, rt) = pressStop player rt"

fun presses :: "button list \<Rightarrow> MusicPlayer \<times> runtime \<Rightarrow> MusicPlayer \<times> runtime" where
  "presses [] s = s"
| "presses (b # bs) s = presses bs (press b s)"

text \<open>
  A player as the constructor leaves its three slots: each holds an object of its own
  class.
\<close>

definition constructed :: "MusicPlayer \<Rightarrow> bool" where
  "constructed player \<longleftrightarrow>
     is_StoppedState (stoppedState player) \<and>
     is_PlayingState (playingState player) \<and>
     is_PausedState (pausedState player)"

section \<open>Observer pattern: the weather station\<close>

text \<open>
  The three display classes hold no data; an observer object is its class and its
  identity.
\<close>

datatype Observer = PhoneDisplay nat | WebDisplay nat | TVDisplay nat

fun getName :: "Observer \<Rightarrow> string" where
  "getName (PhoneDisplay _) = ''Phone Display''"
| "getName (WebDisplay _) = ''Web Display''"
| "getName (TVDisplay _) = ''TV Display''"

text \<open>
  What the program does towards the outside, in the order in which it does it: a line on
  the console, or a call of \<open>update\<close> on an observer with the two arguments of the call.
  A display answers the call by printing the two numbers in its own layout; that text is
  not part of the model.
\<close>

datatype event = Log string | Update Observer real real

record WeatherStation =
  observers :: "Observer list"
  temperature :: real
  humidity :: real

definition new_WeatherStation :: WeatherStation where
  "new_WeatherStation = \<lparr>observers = [], temperature = 0, humidity = 0\<rparr>"

type_synonym station = "WeatherStation \<times> event list"

fun registerObserver :: "Observer \<Rightarrow> station \<Rightarrow> station" where
  "registerObserver observer (ws, tr) =
     (ws\<lparr>observers := observers ws @ [observer]\<rparr>,
      tr @ [Log (getName observer @ '' subscribed'')])"

fun removeObserver :: "Observer \<Rightarrow> station \<Rightarrow> station" where
  "removeObserver observer (ws, tr) =
     (let index = indexOf (observers ws) observer
      in if index > - 1
         then (ws\<lparr>observers := splice (observers ws) (nat index) 1\<rparr>,
               tr @ [Log (getName observer @ '' unsubscribed'')])
         else (ws, tr))"

text \<open>The loop of \<open>notifyObservers\<close> over the array of observers.\<close>

fun update_each :: "Observer list \<Rightarrow> WeatherStation \<Rightarrow> event list \<Rightarrow> event list" where
  "update_each [] ws tr = tr"
| "update_each (observer # rest) ws tr =
     update_each rest ws (tr @ [Update observer (temperature ws) (humidity ws)])"

definition banner :: string where
  "banner = [CHR 0x0A] @ ''Notifying all observers...'' @ [CHR 0x0A]"

fun notifyObservers :: "station \<Rightarrow> station" where
  "notifyObservers (ws, tr) = (ws, update_each (observers ws) ws (tr @ [Log banner]))"

text \<open>
  \<open>setMeasurements\<close> is a sequence of four statements. They are kept apart, in the order
  of the source, so that the state between two of them can be looked at.
\<close>

definition summary_line :: "(real \<Rightarrow> string) \<Rightarrow> real \<Rightarrow> real \<Rightarrow> string" where
  "summary_line ns t h =
     [CHR 0x0A] @ ''  New weather data: '' @ Number_toString ns t @ [CHR 0xB0] @ ''C, '' @
     Number_toString ns h @ ''%''"

definition setMeasurements_body ::
  "(real \<Rightarrow> string) \<Rightarrow> real \<Rightarrow> real \<Rightarrow> (station \<Rightarrow> station) list" where
  "setMeasurements_body ns t h =
     [\<lambda>(ws, tr). (ws, tr @ [Log (summary_line ns t h)]),
      \<lambda>(ws, tr). (ws\<lparr>temperature := t\<rparr>, tr),
      \<lambda>(ws, tr). (ws\<lparr>humidity := h\<rparr>, tr),
      notifyObservers]"

definition run :: "('s \<Rightarrow> 's) list \<Rightarrow> 's \<Rightarrow> 's" where
  "run body s = fold (\<lambda>statement s. statement s) body s"

definition setMeasurements :: "(real \<Rightarrow> string) \<Rightarrow> real \<Rightarrow> real \<Rightarrow> station \<Rightarrow> station" where
  "setMeasurements ns t h s = run (setMeasurements_body ns t h) s"

text \<open>A sequence of subscriptions and cancellations, run from left to right.\<close>

datatype subscription = Register Observer | Remove Observer

fun subscribe :: "subscription \<Rightarrow> station \<Rightarrow> station" where
  "subscribe (Register observer) s = registerObserver observer s"
| "subscribe (Remove observer) s = removeObserver observer s"

fun subscriptions :: "subscription list \<Rightarrow> station \<Rightarrow> station" where
  "subscriptions [] s = s"
| "subscriptions (c # cs) s = subscriptions cs (subscribe c s)"

text \<open>
  The list of observers that the claims describe: an observer joins at the end, and a
  removal takes out the first entry equal to the observer, if there is one.
\<close>

fun registered :: "subscription list \<Rightarrow> Observer list \<Rightarrow> Observer list" where
  "registered [] os = os"
| "registered (Register observer # cs) os = registered cs (os @ [observer])"
| "registered (Remove observer # cs) os = registered cs (remove1 observer os)"

text \<open>The calls of \<open>update\<close> in a trace, in order.\<close>

fun updates :: "event list \<Rightarrow> (Observer \<times> real \<times> real) list" where
  "updates [] = []"
| "updates (Log _ # tr) = updates tr"
| "updates (Update observer t h # tr) = (observer, t, h) # updates tr"

section \<open>Factory pattern: notifications\<close>

datatype Notification =
  EmailNotification | SMSNotification | PushNotification | WhatsAppNotification

fun send :: "Notification \<Rightarrow> js_string \<Rightarrow> js_string list \<Rightarrow> js_string list" where
  "send EmailNotification message out =
     console_log (utf16 ''Email sent successfully!'')
       (console_log (utf16 ''Sending EMAIL: '' @ [0x22] @ message @ [0x22]) out)"
| "send SMSNotification message out =
     console_log (utf16 ''SMS sent successfully!'')
       (console_log (utf16 ''Sending SMS: '' @ [0x22] @ message @ [0x22]) out)"
| "send PushNotification message out =
     console_log (utf16 ''Push notification sent successfully!'')
       (console_log (utf16 ''Sending PUSH notification: '' @ [0x22] @ message @ [0x22]) out)"
| "send WhatsAppNotification message out =
     console_log (utf16 ''WhatsApp message sent successfully!'')
       (console_log (utf16 ''Sending WhatsApp: '' @ [0x22] @ message @ [0x22]) out)"

fun getType :: "Notification \<Rightarrow> js_string" where
  "getType EmailNotification = utf16 ''Email''"
| "getType SMSNotification = utf16 ''SMS''"
| "getType PushNotification = utf16 ''Push''"
| "getType WhatsAppNotification = utf16 ''WhatsApp''"

definition createNotification ::
  "(nat \<Rightarrow> nat list) \<Rightarrow> js_string \<Rightarrow> error + Notification" where
  "createNotification uc type =
     (let selector = toUpperCase uc type
      in if selector = utf16 ''EMAIL'' then Inr EmailNotification
         else if selector = utf16 ''SMS'' then Inr SMSNotification
         else if selector = utf16 ''PUSH'' then Inr PushNotification
         else if selector = utf16 ''WHATSAPP'' then Inr WhatsAppNotification
         else Inl (Error (utf16 ''Unknown notification type: '' @ type)))"

text \<open>
  Equality of two strings up to the case of their letters, as the specification words
  it: the strings have the same length, and at every position the characters are equal
  or are the small and the capital form of one letter of the alphabet \<open>a..z\<close>.
\<close>

definition is_small_letter :: "nat \<Rightarrow> bool" where
  "is_small_letter c \<longleftrightarrow> 97 \<le> c \<and> c \<le> 122"

definition is_capital_letter :: "nat \<Rightarrow> bool" where
  "is_capital_letter c \<longleftrightarrow> 65 \<le> c \<and> c \<le> 90"

definition small_of_capital :: "nat \<Rightarrow> nat \<Rightarrow> bool" where
  "small_of_capital c d \<longleftrightarrow> is_small_letter c \<and> c = d + 32"

definition same_letter :: "nat \<Rightarrow> nat \<Rightarrow> bool" where
  "same_letter c d \<longleftrightarrow> c = d \<or> small_of_capital c d \<or> small_of_capital d c"

definition equal_ignoring_case :: "js_string \<Rightarrow> js_string \<Rightarrow> bool" where
  "equal_ignoring_case s t \<longleftrightarrow> list_all2 same_letter s t"

text \<open>
  What the source accepts for a capital letter \<open>k\<close> of a selector: the letter, its small
  form, and two characters beyond ASCII whose upper case is a letter of ASCII, the
  dotless i (\<open>U+0131\<close>) for \<open>I\<close> and the long s (\<open>U+017F\<close>) for \<open>S\<close>.
\<close>

definition stands_for :: "nat \<Rightarrow> nat \<Rightarrow> bool" where
  "stands_for c k \<longleftrightarrow>
     c = k \<or> c = k + 32 \<or> (c = 0x131 \<and> k = 0x49) \<or> (c = 0x17F \<and> k = 0x53)"

definition selects :: "js_string \<Rightarrow> js_string \<Rightarrow> bool" where
  "selects s word \<longleftrightarrow> list_all2 stands_for s word"

text \<open>
  A word of capital letters on which the upper case of a string can be compared
  character by character: it has no \<open>F\<close>, and no \<open>S\<close> that is followed by \<open>S\<close> or \<open>T\<close>.
  These are the letters that begin the upper case of a ligature, and the pairs that are
  the upper case of the sharp s and of the ligatures of the long s.
\<close>

fun plain_word :: "js_string \<Rightarrow> bool" where
  "plain_word [] \<longleftrightarrow> True"
| "plain_word (k # word) \<longleftrightarrow>
     65 \<le> k \<and> k \<le> 90 \<and> k \<noteq> 0x46 \<and>
     \<not> (k = 0x53 \<and> (case word of [] \<Rightarrow> False | j # _ \<Rightarrow> j = 0x53 \<or> j = 0x54)) \<and>
     plain_word word"

section \<open>Builder pattern: users\<close>

text \<open>
  The name of a builder is declared a string. The guard of \<open>build\<close> also covers a name
  that is missing (\<open>undefined\<close> or \<open>null\<close>), which a caller outside the type checker can
  leave there; in the model such a name is \<open>None\<close>. The optional fields are \<open>None\<close>
  while they are \<open>undefined\<close>.
\<close>

record UserBuilder =
  name :: "js_string option"
  age :: "number option"
  phone :: "js_string option"
  address :: "js_string option"

record User =
  name :: "js_string option"
  age :: "number option"
  phone :: "js_string option"
  address :: "js_string option"

definition new_User :: "UserBuilder \<Rightarrow> User" where
  "new_User builder =
     \<lparr>User.name = UserBuilder.name builder,
      User.age = UserBuilder.age builder,
      User.phone = UserBuilder.phone builder,
      User.address = UserBuilder.address builder\<rparr>"

definition new_UserBuilder :: "js_string option \<Rightarrow> UserBuilder" where
  "new_UserBuilder n =
     \<lparr>UserBuilder.name = n, UserBuilder.age = None, UserBuilder.phone = None,
      UserBuilder.address = None\<rparr>"

definition setAge :: "number \<Rightarrow> UserBuilder \<Rightarrow> UserBuilder" where
  "setAge a builder = builder\<lparr>UserBuilder.age := Some a\<rparr>"

definition setPhone :: "js_string \<Rightarrow> UserBuilder \<Rightarrow> UserBuilder" where
  "setPhone p builder = builder\<lparr>UserBuilder.phone := Some p\<rparr>"

definition setAddress :: "js_string \<Rightarrow> UserBuilder \<Rightarrow> UserBuilder" where
  "setAddress a builder = builder\<lparr>UserBuilder.address := Some a\<rparr>"

text \<open>\<open>!this.name\<close>: a missing name and the empty string are the falsy values.\<close>

definition falsy :: "js_string option \<Rightarrow> bool" where
  "falsy v \<longleftrightarrow> v = None \<or> v = Some []"

definition build :: "UserBuilder \<Rightarrow> error + User" where
  "build builder =
     (if falsy (UserBuilder.name builder) \<or>
         map_option trim (UserBuilder.name builder) = Some []
      then Inl (Error (utf16 ''Name is required!''))
      else Inr (new_User builder))"

text \<open>A chain of setter calls on a builder, run from left to right.\<close>

datatype setter = SetAge number | SetPhone js_string | SetAddress js_string

fun call_setter :: "setter \<Rightarrow> UserBuilder \<Rightarrow> UserBuilder" where
  "call_setter (SetAge a) builder = setAge a builder"
| "call_setter (SetPhone p) builder = setPhone p builder"
| "call_setter (SetAddress a) builder = setAddress a builder"

fun chain :: "setter list \<Rightarrow> UserBuilder \<Rightarrow> UserBuilder" where
  "chain [] builder = builder"
| "chain (c # cs) builder = chain cs (call_setter c builder)"

text \<open>
  The value a chain of calls leaves in a field, read off the calls themselves: the
  argument of the last call of the field's setter, and nothing when there is no such
  call.
\<close>

fun age_of :: "setter \<Rightarrow> number option" where
  "age_of (SetAge a) = Some a"
| "age_of _ = None"

fun phone_of :: "setter \<Rightarrow> js_string option" where
  "phone_of (SetPhone p) = Some p"
| "phone_of _ = None"

fun address_of :: "setter \<Rightarrow> js_string option" where
  "address_of (SetAddress a) = Some a"
| "address_of _ = None"

definition last_set :: "(setter \<Rightarrow> 'a option) \<Rightarrow> setter list \<Rightarrow> 'a option" where
  "last_set field cs =
     (case List.map_filter field cs of [] \<Rightarrow> None | v # vs \<Rightarrow> Some (last (v # vs)))"

text \<open>
  The condition of the specification on the name: it is absent, or blank after trimming.
  A string is blank when all its characters are white space.
\<close>

definition absent_or_blank :: "js_string option \<Rightarrow> bool" where
  "absent_or_blank n \<longleftrightarrow> (case n of None \<Rightarrow> True | Some s \<Rightarrow> trim s = [])"

definition blank :: "js_string \<Rightarrow> bool" where
  "blank s \<longleftrightarrow> list_all is_white_space s"

section \<open>Singleton pattern: the database connection\<close>

record DatabaseConnection =
  identity :: nat
  connectionId :: number

text \<open>
  The runtime of this program: the number of objects allocated so far, the console, and
  the static field \<open>instance\<close> of the class; \<open>None\<close> is its initial \<open>null\<close>.
\<close>

record db_runtime =
  db_allocated :: nat
  db_console :: "js_string list"
  static_instance :: "DatabaseConnection option"



definition runQuery ::
  "(real \<Rightarrow> string) \<Rightarrow> DatabaseConnection \<Rightarrow> js_string \<Rightarrow> db_runtime \<Rightarrow> db_runtime" where
  "runQuery ns this sql rt =
     rt\<lparr>db_console := console_log
       (utf16 ''[ID: '' @ utf16 (ToString ns (connectionId this)) @
        utf16 ''] Executing: '' @ sql)
       (db_console rt)\<rparr>"


section \<open>Strategy pattern: the navigator\<close>

datatype RouteStrategy = CarRouteStrategy | BikeRouteStrategy | WalkingRouteStrategy

text \<open>The arrow between the two places, \<open>U+2192\<close>.\<close>

definition arrow :: js_string where
  "arrow = [0x2192]"

fun calculateRoute ::
  "RouteStrategy \<Rightarrow> js_string \<Rightarrow> js_string \<Rightarrow> js_string list \<Rightarrow> js_string list" where
  "calculateRoute CarRouteStrategy start dest out =
     console_log (utf16 ''Car Route: '' @ start @ utf16 '' '' @ arrow @ utf16 '' '' @ dest) out"
| "calculateRoute BikeRouteStrategy start dest out =
     console_log (utf16 ''Bike Route: '' @ start @ utf16 '' '' @ arrow @ utf16 '' '' @ dest) out"
| "calculateRoute WalkingRouteStrategy start dest out =
     console_log
       (utf16 ''Walking Route: '' @ start @ utf16 '' '' @ arrow @ utf16 '' '' @ dest) out"

fun getEstimatedTime :: "RouteStrategy \<Rightarrow> number \<Rightarrow> number" where
  "getEstimatedTime CarRouteStrategy distance =
     (let avgSpeed = Val 60 in Number_divide distance avgSpeed)"
| "getEstimatedTime BikeRouteStrategy distance =
     (let avgSpeed = Val 15 in Number_divide distance avgSpeed)"
| "getEstimatedTime WalkingRouteStrategy distance =
     (let avgSpeed = Val 5 in Number_divide distance avgSpeed)"

record Navigator =
  routeStrategy :: RouteStrategy

definition new_Navigator :: "RouteStrategy \<Rightarrow> Navigator" where
  "new_Navigator strategy = \<lparr>routeStrategy = strategy\<rparr>"

text \<open>The check mark of the confirmation, \<open>U+2705\<close>.\<close>

definition check_mark :: js_string where
  "check_mark = [0x2705]"

definition setRouteStrategy ::
  "RouteStrategy \<Rightarrow> Navigator \<times> js_string list \<Rightarrow> Navigator \<times> js_string list" where
  "setRouteStrategy strategy s =
     (case s of (this, out) \<Rightarrow>
        (this\<lparr>routeStrategy := strategy\<rparr>,
         console_log ([0xA] @ check_mark @ utf16 '' Route strategy changed!'' @ [0xA]) out))"

definition buildRoute ::
  "(real \<Rightarrow> string) \<Rightarrow> js_string \<Rightarrow> js_string \<Rightarrow> number \<Rightarrow> Navigator \<times> js_string list \<Rightarrow>
   Navigator \<times> js_string list" where
  "buildRoute ns start dest distance s =
     (case s of (this, out) \<Rightarrow>
        (let out = calculateRoute (routeStrategy this) start dest out;
             time = getEstimatedTime (routeStrategy this) distance;
             out = console_log
               (utf16 ''Distance: '' @ utf16 (ToString ns distance) @ utf16 '' km'') out;
             out = console_log
               (utf16 ''Estimated time: '' @ utf16 (toFixed ns time 1) @ utf16 '' hours'') out
         in (this, out)))"

section \<open>Polymorphism: the calculator\<close>

text \<open>
  The implementation of \<open>add\<close> takes two values of any type and applies \<open>+\<close>. The two
  overloads admit two numbers or two strings. On a number and a string \<open>+\<close> turns the
  number into text and concatenates.
\<close>

datatype any = Num number | Str js_string

fun add :: "(real \<Rightarrow> string) \<Rightarrow> any \<Rightarrow> any \<Rightarrow> any" where
  "add ns (Num a) (Num b) = Num (Number_add a b)"
| "add ns (Str a) (Str b) = Str (a @ b)"
| "add ns (Num a) (Str b) = Str (utf16 (ToString ns a) @ b)"
| "add ns (Str a) (Num b) = Str (a @ utf16 (ToString ns b))"

section \<open>Open/closed principle: shapes\<close>




chapter \<open>The properties\<close>

section \<open>The music player: transitions and invariant\<close>

lemmas player_defs =
  pressPlay_def pressPause_def pressStop_def setState_def
  getStoppedState_def getPlayingState_def getPausedState_def constructed_def

lemma constructed_new: "constructed (fst (new_MusicPlayer rt))"
  by (simp add: new_MusicPlayer_def constructed_def Let_def)

text \<open>
  Claim C1. On a player whose slots are as the constructor built them: when the current
  state is the stopped object, pause and stop leave the player as it is and print their
  rejection message, and play installs the playing object; when it is the playing
  object, play is rejected, pause installs the paused object and stop installs the
  stopped object; when it is the paused object, play installs the playing object, pause
  is rejected and stop installs the stopped object. Every case returns a player and a
  console with exactly one more line: no case fails.
\<close>

theorem MusicPlayer_transitions:
  assumes "constructed p"
  shows "(currentState p = stoppedState p \<longrightarrow>
           pressPause p rt = (p, rt_log ''Cannot pause. The player is currently stopped.'' rt) \<and>
           pressStop p rt = (p, rt_log ''Already stopped.'' rt) \<and>
           pressPlay p rt = (p\<lparr>currentState := playingState p\<rparr>,
                             rt_log ''Starting music from the beginning...'' rt)) \<and>
         (currentState p = playingState p \<longrightarrow>
           pressPlay p rt = (p, rt_log ''Already playing music.'' rt) \<and>
           pressPause p rt = (p\<lparr>currentState := pausedState p\<rparr>, rt_log ''Music paused.'' rt) \<and>
           pressStop p rt = (p\<lparr>currentState := stoppedState p\<rparr>,
                             rt_log ''Stopping music and resetting track.'' rt)) \<and>
         (currentState p = pausedState p \<longrightarrow>
           pressPause p rt = (p, rt_log ''Already paused.'' rt) \<and>
           pressPlay p rt = (p\<lparr>currentState := playingState p\<rparr>, rt_log ''Resuming music...'' rt) \<and>
           pressStop p rt = (p\<lparr>currentState := stoppedState p\<rparr>,
                             rt_log ''Stopping music and resetting track.'' rt))"
proof -
  obtain a b c where
    slots: "stoppedState p = StoppedState a" "playingState p = PlayingState b"
      "pausedState p = PausedState c"
    using assms unfolding constructed_def
    by (cases "stoppedState p"; cases "playingState p"; cases "pausedState p") simp_all
  show ?thesis
    using slots by (simp add: player_defs)
qed

text \<open>
  The theorem at work on the player the constructor builds, and on the same player with
  the playing and the paused object installed.
\<close>

theorem MusicPlayer_transitions_witness:
  "let rt = \<lparr>allocated = 0, console = []\<rparr>;
       stopped = fst (new_MusicPlayer rt);
       playing = stopped\<lparr>currentState := playingState stopped\<rparr>;
       paused = stopped\<lparr>currentState := pausedState stopped\<rparr>
   in constructed stopped \<and> currentState stopped = stoppedState stopped \<and>
      pressPause stopped rt =
        (stopped, rt_log ''Cannot pause. The player is currently stopped.'' rt) \<and>
      pressPlay stopped rt = (playing, rt_log ''Starting music from the beginning...'' rt) \<and>
      constructed playing \<and> currentState playing = playingState playing \<and>
      pressPlay playing rt = (playing, rt_log ''Already playing music.'' rt) \<and>
      pressPause playing rt = (paused, rt_log ''Music paused.'' rt) \<and>
      pressStop playing rt = (stopped, rt_log ''Stopping music and resetting track.'' rt) \<and>
      constructed paused \<and> currentState paused = pausedState paused \<and>
      pressPlay paused rt = (playing, rt_log ''Resuming music...'' rt) \<and>
      pressStop paused rt = (stopped, rt_log ''Stopping music and resetting track.'' rt)"
proof -
  define rt where "rt = \<lparr>allocated = 0, console = []\<rparr>"
  define stopped where "stopped = fst (new_MusicPlayer rt)"
  define playing where "playing = stopped\<lparr>currentState := playingState stopped\<rparr>"
  define paused where "paused = stopped\<lparr>currentState := pausedState stopped\<rparr>"
  have c: "constructed stopped" "constructed playing" "constructed paused"
    and s: "currentState stopped = stoppedState stopped"
      "currentState playing = playingState playing"
      "currentState paused = pausedState paused"
    by (simp_all add: stopped_def playing_def paused_def new_MusicPlayer_def constructed_def rt_def Let_def)
  have e: "playing\<lparr>currentState := stoppedState playing\<rparr> = stopped"
    "paused\<lparr>currentState := stoppedState paused\<rparr> = stopped"
    "stopped\<lparr>currentState := playingState stopped\<rparr> = playing"
    "paused\<lparr>currentState := playingState paused\<rparr> = playing"
    "playing\<lparr>currentState := pausedState playing\<rparr> = paused"
    by (simp_all add: stopped_def playing_def paused_def new_MusicPlayer_def rt_def Let_def)
  from MusicPlayer_transitions [OF c(1), of rt] MusicPlayer_transitions [OF c(2), of rt]
    MusicPlayer_transitions [OF c(3), of rt] c s e
  show ?thesis
    unfolding Let_def rt_def [symmetric] stopped_def [symmetric] playing_def [symmetric]
      paused_def [symmetric]
    by simp
qed

subsection \<open>The state objects\<close>

lemma press_keeps_slots:
  "press b (p, rt) = (p', rt') \<Longrightarrow>
     stoppedState p' = stoppedState p \<and> playingState p' = playingState p \<and>
     pausedState p' = pausedState p \<and> allocated rt' = allocated rt \<and>
     currentState p' \<in> {currentState p, stoppedState p, playingState p, pausedState p}"
  by (cases b; cases "currentState p") (auto simp: player_defs rt_log_def)

lemma presses_keep_slots:
  "presses bs (p, rt) = (p', rt') \<Longrightarrow>
     currentState p \<in> {stoppedState p, playingState p, pausedState p} \<Longrightarrow>
     stoppedState p' = stoppedState p \<and> playingState p' = playingState p \<and>
     pausedState p' = pausedState p \<and> allocated rt' = allocated rt \<and>
     currentState p' \<in> {stoppedState p, playingState p, pausedState p}"
proof (induction bs arbitrary: p rt)
  case Nil
  then show ?case by simp
next
  case (Cons b bs)
  obtain q rt1 where step: "press b (p, rt) = (q, rt1)"
    by (cases "press b (p, rt)")
  from press_keeps_slots [OF step] Cons.prems(2)
  have q: "stoppedState q = stoppedState p" "playingState q = playingState p"
    "pausedState q = pausedState p" "allocated rt1 = allocated rt"
    "currentState q \<in> {stoppedState q, playingState q, pausedState q}"
    by auto
  from Cons.prems(1) step have "presses bs (q, rt1) = (p', rt')"
    by simp
  from Cons.IH [OF this q(5)] q show ?case
    by simp
qed

text \<open>
  Claim C10. The constructor allocates the player and one object of each state class.
  After any finite sequence of button presses on that player, the current state is one
  of these three objects, the three slots of the player still hold them, and the number
  of objects allocated is the one the constructor left: no press creates an object.
\<close>

theorem MusicPlayer_state_instances:
  "\<exists>p0 rt0 p rt'.
     new_MusicPlayer rt = (p0, rt0) \<and> presses bs (p0, rt0) = (p, rt') \<and>
     allocated rt0 = allocated rt + 4 \<and>
     stoppedState p0 = StoppedState (allocated rt + 1) \<and>
     playingState p0 = PlayingState (allocated rt + 2) \<and>
     pausedState p0 = PausedState (allocated rt + 3) \<and>
     currentState p \<in> {stoppedState p0, playingState p0, pausedState p0} \<and>
     stoppedState p = stoppedState p0 \<and> playingState p = playingState p0 \<and>
     pausedState p = pausedState p0 \<and>
     allocated rt' = allocated rt0"
proof -
  obtain p0 rt0 where new: "new_MusicPlayer rt = (p0, rt0)"
    by (cases "new_MusicPlayer rt")
  obtain p rt' where run: "presses bs (p0, rt0) = (p, rt')"
    by (cases "presses bs (p0, rt0)")
  from new have init:
    "allocated rt0 = allocated rt + 4"
    "stoppedState p0 = StoppedState (allocated rt + 1)"
    "playingState p0 = PlayingState (allocated rt + 2)"
    "pausedState p0 = PausedState (allocated rt + 3)"
    "currentState p0 = stoppedState p0"
    by (auto simp: new_MusicPlayer_def Let_def)
  from init(5) have "currentState p0 \<in> {stoppedState p0, playingState p0, pausedState p0}"
    by simp
  from presses_keep_slots [OF run this] new run init show ?thesis
    by simp
qed

section \<open>Builtins\<close>

lemma digit_char_simps:
  "digit_char 0 = CHR ''0''" "digit_char (Suc 0) = CHR ''1''" "digit_char 1 = CHR ''1''"
  "digit_char 2 = CHR ''2''" "digit_char 3 = CHR ''3''" "digit_char 4 = CHR ''4''"
  "digit_char 5 = CHR ''5''" "digit_char 6 = CHR ''6''" "digit_char 7 = CHR ''7''"
  "digit_char 8 = CHR ''8''" "digit_char 9 = CHR ''9''"
  by (simp_all add: digit_char_def char_of_def bit_Suc_0_iff)

lemma indexOf_from_absent: "x \<notin> set xs \<Longrightarrow> indexOf_from xs x k = - 1"
  by (induction xs arbitrary: k) auto

lemma indexOf_from_present:
  "x \<in> set xs \<Longrightarrow>
     \<exists>i < length xs. indexOf_from xs x k = int (k + i) \<and>
       take i xs @ drop (Suc i) xs = remove1 x xs"
proof (induction xs arbitrary: k)
  case Nil
  then show ?case by simp
next
  case (Cons y ys)
  show ?case
  proof (cases "y = x")
    case True
    then have "indexOf_from (y # ys) x k = int (k + 0) \<and>
        take 0 (y # ys) @ drop (Suc 0) (y # ys) = remove1 x (y # ys)"
      by simp
    then show ?thesis by blast
  next
    case False
    with Cons.prems have "x \<in> set ys" by simp
    from Cons.IH [OF this, of "Suc k"] obtain i where
      i: "i < length ys" "indexOf_from ys x (Suc k) = int (Suc k + i)"
        "take i ys @ drop (Suc i) ys = remove1 x ys"
      by blast
    with False have "Suc i < length (y # ys) \<and>
        indexOf_from (y # ys) x k = int (k + Suc i) \<and>
        take (Suc i) (y # ys) @ drop (Suc (Suc i)) (y # ys) = remove1 x (y # ys)"
      by simp
    then show ?thesis by blast
  qed
qed

section \<open>Doubles\<close>

text \<open>
  The binade of a positive real, bounds of the rounding to an integer, and the doubles
  among the whole numbers: all of them up to \<open>2^53\<close> in absolute value.
\<close>

lemma powr_powi: "(2::real) powr (of_int k) = 2 powi k"
  by (simp add: powr_real_of_int' power_int_def)

lemma binade_iff:
  assumes "0 < x"
  shows "binade x = e \<longleftrightarrow> 2 powi e \<le> x \<and> x < 2 powi (e + 1)"
proof -
  have "(2::real) powr (of_int e + 1) = 2 powi (e + 1)"
    using powr_powi [of "e + 1"] by simp
  with powr_powi [of e] show ?thesis
    unfolding binade_def using floor_log_eq_powr_iff [of x 2 e] assms by simp
qed

lemma binade_eqI: "2 powi e \<le> x \<Longrightarrow> x < 2 powi (e + 1) \<Longrightarrow> binade x = e"
proof -
  assume a: "2 powi e \<le> x" "x < 2 powi (e + 1)"
  have "(0::real) < 2 powi e" by simp
  with a(1) have "0 < x" by linarith
  with a show ?thesis by (simp add: binade_iff)
qed

lemma binade_bounds:
  assumes "0 < x"
  shows "2 powi (binade x) \<le> x" "x < 2 powi (binade x + 1)"
  using binade_iff [OF assms, of "binade x"] by simp_all

lemma round_ties_even_of_int: "round_ties_even (of_int n) = n"
  by (simp add: round_ties_even_def)

lemma round_ties_even_le: "of_int (round_ties_even y) \<le> y + 1 / 2"
  unfolding round_ties_even_def Let_def by (auto; linarith)

lemma round_ties_even_ge: "y - 1 / 2 \<le> of_int (round_ties_even y)"
  unfolding round_ties_even_def Let_def by (auto; linarith)

lemma round_ties_even_below:
  assumes "y + 1 / 2 < of_int N"
  shows "round_ties_even y \<le> N - 1"
proof -
  from round_ties_even_le [of y] assms have "real_of_int (round_ties_even y) < of_int N"
    by linarith
  then show ?thesis by simp
qed




lemma powi_mono: "m \<le> n \<Longrightarrow> (2::real) powi m \<le> 2 powi n"
  by (rule power_int_increasing) simp_all

lemma nearest_le_power:
  assumes "0 < x"
  shows "nearest x \<le> 2 powi (max (binade x) (- 1022) + 1)"
proof -
  define E where "E = max (binade x) (- 1022)"
  have q: "quantum x = 2 powi (E - 52)"
    by (simp add: quantum_def E_def)
  have "x < 2 powi (binade x + 1)"
    by (rule binade_bounds [OF assms])
  also have "\<dots> \<le> 2 powi (E + 1)"
    by (rule powi_mono) (simp add: E_def)
  finally have "x / quantum x < 2 powi (E + 1) / 2 powi (E - 52)"
    unfolding q by (simp add: divide_strict_right_mono)
  also have "(2::real) powi (E + 1) / 2 powi (E - 52) = 2 powi 53"
    by (simp add: power_int_diff [symmetric])
  finally have "x / quantum x + 1 / 2 < of_int (2 ^ 53 + 1)"
    by simp
  then have "round_ties_even (x / quantum x) \<le> 2 ^ 53"
    using round_ties_even_below [of "x / quantum x" "2 ^ 53 + 1"] by simp
  then have "real_of_int (round_ties_even (x / quantum x)) \<le> 2 ^ 53"
    by (metis of_int_le_iff of_int_numeral of_int_power)
  then have "nearest x \<le> 2 ^ 53 * 2 powi (E - 52)"
    unfolding nearest_def q by (simp add: mult_right_mono)
  also have "(2::real) ^ 53 * 2 powi (E - 52) = 2 powi (E + 1)"
    using power_int_add [of "2::real" 53 "E - 52"] by (simp add: add.commute)
  finally show ?thesis
    by (simp add: E_def)
qed

lemma nearest_whole:
  assumes "0 < n" "n \<le> 2 ^ 53"
  shows "nearest (of_int n) = of_int n"
proof -
  define e where "e = binade (of_int n)"
  have pos: "(0::real) < of_int n"
    using assms(1) by simp
  have lo: "2 powi e \<le> real_of_int n" and hi: "real_of_int n < 2 powi (e + 1)"
    unfolding e_def by (rule binade_bounds [OF pos])+
  have "0 \<le> e"
  proof (rule ccontr)
    assume "\<not> 0 \<le> e"
    then have "e + 1 \<le> 0" by simp
    then have "(2::real) powi (e + 1) \<le> 2 powi 0"
      by (rule powi_mono)
    with hi have "real_of_int n < 1" by simp
    with assms(1) show False by simp
  qed
  have "e \<le> 53"
  proof (rule ccontr)
    assume "\<not> e \<le> 53"
    then have "54 \<le> e" by simp
    then have "(2::real) powi 54 \<le> 2 powi e"
      by (rule powi_mono)
    with lo have "(2::real) ^ 54 \<le> of_int n" by simp
    moreover from assms(2) have "real_of_int n \<le> 2 ^ 53"
      by (metis of_int_le_iff of_int_numeral of_int_power)
    ultimately show False by simp
  qed
  have q: "quantum (of_int n) = 2 powi (e - 52)"
    using \<open>0 \<le> e\<close> by (simp add: quantum_def e_def max_def)
  have "\<exists>k. real_of_int n / 2 powi (e - 52) = of_int k"
  proof (cases "e \<le> 52")
    case True
    then have "(2::real) powi (52 - e) = 2 ^ nat (52 - e)"
      by (simp add: power_int_def)
    moreover have "real_of_int n / 2 powi (e - 52) = of_int n * 2 powi (52 - e)"
      using power_int_minus [of "2::real" "e - 52"] by (simp add: field_simps)
    ultimately have "real_of_int n / 2 powi (e - 52) = of_int (n * 2 ^ nat (52 - e))"
      by simp
    then show ?thesis by blast
  next
    case False
    with \<open>e \<le> 53\<close> have e: "e = 53" by simp
    with lo have "(2::real) ^ 53 \<le> of_int n" by simp
    moreover from assms(2) have "real_of_int n \<le> 2 ^ 53"
      by (metis of_int_le_iff of_int_numeral of_int_power)
    ultimately have "real_of_int n = 2 ^ 53" by simp
    then have "real_of_int n / 2 powi (e - 52) = of_int (2 ^ 52)"
      by (simp add: e)
    then show ?thesis by blast
  qed
  then obtain k where k: "real_of_int n / 2 powi (e - 52) = of_int k"
    by blast
  then have "real_of_int n = of_int k * 2 powi (e - 52)"
    by (simp add: field_simps)
  then show ?thesis
    unfolding nearest_def q k round_ties_even_of_int by simp
qed

lemma below_overflow: "x \<le> 2 ^ 64 \<Longrightarrow> \<not> overflow \<le> x"
proof -
  assume "x \<le> 2 ^ 64"
  also have "(2::real) ^ 64 = 2 powi 64"
    by simp
  also have "\<dots> \<le> 2 powi 1023"
    by (rule powi_mono) simp
  also have "\<dots> < 2 powi 1024"
    by (rule power_int_strict_increasing) simp_all
  finally show ?thesis
    by (simp add: overflow_def)
qed

lemma Number_for_whole:
  assumes "\<bar>n\<bar> \<le> 2 ^ 53"
  shows "Number_for (of_int n) = Val (of_int n)"
proof (cases "n = 0")
  case True
  then show ?thesis by (simp add: Number_for_def)
next
  case False
  then have m: "0 < \<bar>n\<bar>" by simp
  have near: "nearest \<bar>real_of_int n\<bar> = \<bar>real_of_int n\<bar>"
    using nearest_whole [OF m assms] by simp
  have "\<bar>real_of_int n\<bar> \<le> 2 ^ 53"
    using assms by (metis of_int_abs of_int_le_iff of_int_numeral of_int_power)
  then have "\<bar>real_of_int n\<bar> \<le> 2 ^ 64"
    by simp
  then have small: "\<not> overflow \<le> \<bar>real_of_int n\<bar>"
    by (rule below_overflow)
  from False small show ?thesis
    by (simp add: Number_for_def near Let_def)
qed









text \<open>
  The Number value for a real whose binade is known: what the examples are computed with.
\<close>

lemma Number_for_eval:
  assumes "2 powi e \<le> x" "x < 2 powi (e + 1)" "- 1022 \<le> e" "e \<le> 63"
  shows "Number_for x = Val (of_int (round_ties_even (x / 2 powi (e - 52))) * 2 powi (e - 52))"
    and "Number_for (- x) = Val (- (of_int (round_ties_even (x / 2 powi (e - 52))) * 2 powi (e - 52)))"
proof -
  have "(0::real) < 2 powi e" by simp
  with assms(1) have pos: "0 < x" by linarith
  have b: "binade x = e"
    by (rule binade_eqI [OF assms(1,2)])
  have q: "quantum x = 2 powi (e - 52)"
    using assms(3) by (simp add: quantum_def b max_def)
  define m :: real where "m = of_int (round_ties_even (x / 2 powi (e - 52))) * 2 powi (e - 52)"
  have near: "nearest x = m"
    by (simp add: nearest_def q m_def)
  have "m \<le> 2 powi (e + 1)"
    using nearest_le_power [OF pos] assms(3) by (simp add: near b max_def)
  also have "\<dots> \<le> 2 powi 64"
    by (rule powi_mono) (use assms(4) in simp)
  finally have "m \<le> 2 ^ 64" by simp
  then have small: "\<not> overflow \<le> m"
    by (rule below_overflow)
  have "(2::real) powi 52 = 2 powi e / 2 powi (e - 52)"
    by (simp add: power_int_diff [symmetric])
  also have "\<dots> \<le> x / 2 powi (e - 52)"
    using assms(1) by (simp add: divide_right_mono)
  finally have "2 powi 52 \<le> x / 2 powi (e - 52)" .
  moreover have "(1::real) \<le> 2 powi 52"
    by simp
  ultimately have "1 \<le> x / 2 powi (e - 52)"
    by linarith
  with round_ties_even_ge [of "x / 2 powi (e - 52)"]
  have "0 < real_of_int (round_ties_even (x / 2 powi (e - 52)))"
    by linarith
  then have mpos: "0 < m"
    by (simp add: m_def)
  show "Number_for x = Val (of_int (round_ties_even (x / 2 powi (e - 52))) * 2 powi (e - 52))"
    using pos small mpos unfolding m_def [symmetric]
    by (simp add: Number_for_def near Let_def)
  show "Number_for (- x) = Val (- (of_int (round_ties_even (x / 2 powi (e - 52))) * 2 powi (e - 52)))"
    using pos small mpos unfolding m_def [symmetric]
    by (simp add: Number_for_def near Let_def)
qed


section \<open>The weather station: who is notified, and in which order\<close>

text \<open>\<open>indexOf\<close> followed by \<open>splice\<close> removes the first entry equal to the observer.\<close>

lemma removeObserver_remove1:
  "removeObserver observer (ws, tr) =
     (if observer \<in> set (observers ws)
      then (ws\<lparr>observers := remove1 observer (observers ws)\<rparr>,
            tr @ [Log (getName observer @ '' unsubscribed'')])
      else (ws, tr))"
proof (cases "observer \<in> set (observers ws)")
  case True
  from indexOf_from_present [OF this, of 0] obtain i where
    "indexOf (observers ws) observer = int i"
    "take i (observers ws) @ drop (Suc i) (observers ws) = remove1 observer (observers ws)"
    by (auto simp: indexOf_def)
  with True show ?thesis
    by (simp add: splice_def)
next
  case False
  then show ?thesis
    by (simp add: indexOf_def indexOf_from_absent)
qed

lemma update_each_map:
  "update_each os ws tr = tr @ map (\<lambda>observer. Update observer (temperature ws) (humidity ws)) os"
  by (induction os arbitrary: tr) simp_all

lemma subscribe_observers:
  "subscribe c (ws, tr) = (ws', tr') \<Longrightarrow>
     observers ws' = registered [c] (observers ws) \<and>
     temperature ws' = temperature ws \<and> humidity ws' = humidity ws"
  by (cases c) (auto simp: removeObserver_remove1 remove1_idem simp del: removeObserver.simps split: if_splits)

lemma subscriptions_observers:
  "subscriptions cs (ws, tr) = (ws', tr') \<Longrightarrow>
     observers ws' = registered cs (observers ws) \<and>
     temperature ws' = temperature ws \<and> humidity ws' = humidity ws"
proof (induction cs arbitrary: ws tr)
  case Nil
  then show ?case by simp
next
  case (Cons c cs)
  obtain ws1 tr1 where step: "subscribe c (ws, tr) = (ws1, tr1)"
    by (cases "subscribe c (ws, tr)")
  from subscribe_observers [OF step] have one:
    "observers ws1 = registered [c] (observers ws)"
    "temperature ws1 = temperature ws" "humidity ws1 = humidity ws"
    by simp_all
  from Cons.prems step have "subscriptions cs (ws1, tr1) = (ws', tr')"
    by simp
  from Cons.IH [OF this] one show ?case
    by (cases c) simp_all
qed

lemma setMeasurements_trace:
  "setMeasurements ns t h (ws, tr) =
     (ws\<lparr>temperature := t, humidity := h\<rparr>,
      tr @ [Log (summary_line ns t h), Log banner] @
      map (\<lambda>observer. Update observer t h) (observers ws))"
  by (simp add: setMeasurements_def setMeasurements_body_def run_def update_each_map)

lemma updates_append: "updates (tr @ tr') = updates tr @ updates tr'"
  by (induction tr rule: updates.induct) simp_all

lemma updates_map_Update:
  "updates (map (\<lambda>observer. Update observer t h) os) = map (\<lambda>observer. (observer, t, h)) os"
  by (induction os) simp_all

text \<open>
  Claim C2. After any sequence of subscriptions and cancellations on any station, the
  array of observers is the list of the registrations in their order, without the first
  entry of an observer for each of its cancellations. \<open>setMeasurements t h\<close> then
  prints its two lines and calls \<open>update\<close> with \<open>t\<close> and \<open>h\<close> on exactly the observers of
  that list, in its order, once for every entry. An observer registered twice is in the
  list twice. \<open>removeObserver\<close> takes out the first entry that is the observer and prints
  its line, and changes nothing and prints nothing when there is no such entry.
\<close>

theorem WeatherStation_notifies_registered:
  "\<exists>ws' tr'.
     subscriptions cs (ws, tr) = (ws', tr') \<and>
     observers ws' = registered cs (observers ws) \<and>
     setMeasurements ns t h (ws', tr') =
       (ws'\<lparr>temperature := t, humidity := h\<rparr>,
        tr' @ [Log (summary_line ns t h), Log banner] @
        map (\<lambda>observer. Update observer t h) (registered cs (observers ws))) \<and>
     updates (snd (setMeasurements ns t h (ws', tr'))) =
       updates tr' @ map (\<lambda>observer. (observer, t, h)) (registered cs (observers ws)) \<and>
     registered [Register observer, Register observer] [] = [observer, observer] \<and>
     removeObserver observer (ws, tr) =
       (if observer \<in> set (observers ws)
        then (ws\<lparr>observers := remove1 observer (observers ws)\<rparr>,
              tr @ [Log (getName observer @ '' unsubscribed'')])
        else (ws, tr))"
proof -
  obtain ws' tr' where run: "subscriptions cs (ws, tr) = (ws', tr')"
    by (cases "subscriptions cs (ws, tr)")
  from subscriptions_observers [OF run]
  have obs: "observers ws' = registered cs (observers ws)"
    by simp
  have trace: "setMeasurements ns t h (ws', tr') =
       (ws'\<lparr>temperature := t, humidity := h\<rparr>,
        tr' @ [Log (summary_line ns t h), Log banner] @
        map (\<lambda>observer. Update observer t h) (registered cs (observers ws)))"
    by (simp add: setMeasurements_trace obs)
  have calls: "updates (snd (setMeasurements ns t h (ws', tr'))) =
       updates tr' @ map (\<lambda>observer. (observer, t, h)) (registered cs (observers ws))"
    by (simp add: trace updates_append updates_map_Update)
  have twice: "registered [Register observer, Register observer] [] = [observer, observer]"
    by simp
  from run obs trace calls twice removeObserver_remove1 [of observer ws tr]
  show ?thesis
    by blast
qed

text \<open>
  The scenario of the demonstration: phone, web and TV subscribe, a measurement reaches
  all three in that order; the TV display cancels (a second cancellation finds nothing),
  and the next measurement reaches the phone and the web display only.
\<close>

theorem WeatherStation_notifies_registered_witness:
  "let phone = PhoneDisplay 0; web = WebDisplay 1; tv = TVDisplay 2;
       ns = not_consulted;
       s1 = subscriptions [Register phone, Register web, Register tv] (new_WeatherStation, []);
       s2 = setMeasurements ns 25 65 s1;
       s3 = subscriptions [Remove tv, Remove tv] s2;
       s4 = setMeasurements ns 28 68 s3
   in updates (snd s2) = [(phone, 25, 65), (web, 25, 65), (tv, 25, 65)] \<and>
      observers (fst s3) = [phone, web] \<and>
      updates (snd s4) = updates (snd s2) @ [(phone, 28, 68), (web, 28, 68)]"
  using WeatherStation_notifies_registered
    [of "[Register (PhoneDisplay 0), Register (WebDisplay 1), Register (TVDisplay 2)]"
      new_WeatherStation "[]" not_consulted 25 65 "TVDisplay 2"]
  by (simp add: Let_def new_WeatherStation_def setMeasurements_trace removeObserver_remove1
      updates_append updates_map_Update del: removeObserver.simps)

subsection \<open>The order of the statements of \<open>setMeasurements\<close>\<close>

text \<open>
  The specification has the two fields updated first and the summary line printed
  after that. The source prints first: after its first statement the line is on the
  console while both fields still hold their initial value 0, not the 25 and 65 of the
  call.
\<close>

theorem setMeasurements_prints_before_update:
  "snd (run (take 1 (setMeasurements_body not_consulted 25 65)) (new_WeatherStation, [])) =
     [Log ([CHR 0x0A] @ ''  New weather data: 25'' @ [CHR 0xB0] @ ''C, 65%'')] \<and>
   temperature (fst (run (take 1 (setMeasurements_body not_consulted 25 65))
     (new_WeatherStation, []))) = 0 \<and>
   humidity (fst (run (take 1 (setMeasurements_body not_consulted 25 65))
     (new_WeatherStation, []))) = 0"
  by (simp add: setMeasurements_body_def run_def new_WeatherStation_def summary_line_def
      Number_toString_def decimal.simps digit_char_simps)

text \<open>
  Claim C7, amended. \<open>setMeasurements\<close> is four statements long. The first prints the
  summary line and leaves the station as it is; the second and third store the
  temperature and the humidity and print nothing; \<open>notifyObservers\<close> runs last, on the
  station with both fields updated.
\<close>

theorem setMeasurements_statement_order:
  "length (setMeasurements_body ns t h) = 4 \<and>
   run (take 1 (setMeasurements_body ns t h)) (ws, tr) =
     (ws, tr @ [Log (summary_line ns t h)]) \<and>
   run (take 2 (setMeasurements_body ns t h)) (ws, tr) =
     (ws\<lparr>temperature := t\<rparr>, tr @ [Log (summary_line ns t h)]) \<and>
   run (take 3 (setMeasurements_body ns t h)) (ws, tr) =
     (ws\<lparr>temperature := t, humidity := h\<rparr>, tr @ [Log (summary_line ns t h)]) \<and>
   setMeasurements ns t h (ws, tr) =
     notifyObservers (run (take 3 (setMeasurements_body ns t h)) (ws, tr))"
  by (simp add: setMeasurements_def setMeasurements_body_def run_def take_Suc_conv_app_nth
      numeral_2_eq_2 numeral_3_eq_3)

section \<open>The user builder\<close>

text \<open>Trimming leaves nothing exactly when every code unit is white space.\<close>

lemma trim_Nil_iff: "trim s = [] \<longleftrightarrow> blank s"
proof
  assume "trim s = []"
  then have all: "\<forall>c \<in> set (dropWhile is_white_space s). is_white_space c"
    by (simp add: trim_def)
  have "dropWhile is_white_space s = []"
  proof (cases "dropWhile is_white_space s")
    case Nil
    then show ?thesis .
  next
    case (Cons c cs)
    then have "\<not> is_white_space c"
      using hd_dropWhile [of is_white_space s] by simp
    with all Cons show ?thesis
      by simp
  qed
  then show "blank s"
    by (simp add: blank_def list_all_iff)
next
  assume "blank s"
  then have empty: "dropWhile is_white_space s = []"
    by (auto simp: blank_def list_all_iff)
  show "trim s = []"
    unfolding trim_def empty by simp
qed

lemma build_fails_iff: "isl (build b) \<longleftrightarrow> absent_or_blank (UserBuilder.name b)"
  by (cases "UserBuilder.name b") (auto simp: build_def falsy_def absent_or_blank_def trim_def)

text \<open>
  A chain of setter calls leaves the name alone, and in each optional field the argument
  of the last call of its setter, or what the field held before when there is none.
\<close>

lemma last_set_Cons:
  "last_set field (c # cs) = (case last_set field cs of None \<Rightarrow> field c | Some v \<Rightarrow> Some v)"
  by (cases "field c"; cases "List.map_filter field cs")
    (simp_all add: last_set_def)

lemma last_set_Nil: "last_set field [] = None"
  by (simp add: last_set_def)

lemma chain_fields:
  "UserBuilder.name (chain cs b) = UserBuilder.name b \<and>
   UserBuilder.age (chain cs b) =
     (case last_set age_of cs of None \<Rightarrow> UserBuilder.age b | Some v \<Rightarrow> Some v) \<and>
   UserBuilder.phone (chain cs b) =
     (case last_set phone_of cs of None \<Rightarrow> UserBuilder.phone b | Some v \<Rightarrow> Some v) \<and>
   UserBuilder.address (chain cs b) =
     (case last_set address_of cs of None \<Rightarrow> UserBuilder.address b | Some v \<Rightarrow> Some v)"
proof (induction cs arbitrary: b)
  case Nil
  then show ?case by (simp add: last_set_Nil)
next
  case (Cons c cs)
  show ?case
    by (cases c)
      (simp_all add: Cons.IH last_set_Cons setAge_def setPhone_def setAddress_def
        split: option.split)
qed

lemma chain_new_fields:
  "UserBuilder.name (chain cs (new_UserBuilder n)) = n"
  "UserBuilder.age (chain cs (new_UserBuilder n)) = last_set age_of cs"
  "UserBuilder.phone (chain cs (new_UserBuilder n)) = last_set phone_of cs"
  "UserBuilder.address (chain cs (new_UserBuilder n)) = last_set address_of cs"
  by (simp_all add: chain_fields new_UserBuilder_def split: option.split)

text \<open>
  Claim C4. \<open>build\<close> fails exactly when the name of the builder is absent or blank after
  trimming, that is, when it is missing or consists of white space only. Otherwise it
  returns the user with the name, age, phone and address that the builder holds at that
  moment. For a builder made by the constructor and a chain of setter calls, these are
  the name given to the constructor and, for each optional field, the argument of the
  last call of its setter, absent when the setter was never called.
\<close>

theorem UserBuilder_build:
  "(isl (build b) \<longleftrightarrow> absent_or_blank (UserBuilder.name b)) \<and>
   (absent_or_blank (Some s) \<longleftrightarrow> blank s) \<and>
   build b =
     (if absent_or_blank (UserBuilder.name b) then Inl (Error (utf16 ''Name is required!''))
      else Inr \<lparr>User.name = UserBuilder.name b, User.age = UserBuilder.age b,
                User.phone = UserBuilder.phone b, User.address = UserBuilder.address b\<rparr>) \<and>
   build (chain cs (new_UserBuilder n)) =
     (if absent_or_blank n then Inl (Error (utf16 ''Name is required!''))
      else Inr \<lparr>User.name = n, User.age = last_set age_of cs,
                User.phone = last_set phone_of cs,
                User.address = last_set address_of cs\<rparr>)"
proof -
  have fail: "isl (build b) \<longleftrightarrow> absent_or_blank (UserBuilder.name b)" for b
    by (rule build_fails_iff)
  have result: "build b =
     (if absent_or_blank (UserBuilder.name b) then Inl (Error (utf16 ''Name is required!''))
      else Inr \<lparr>User.name = UserBuilder.name b, User.age = UserBuilder.age b,
                User.phone = UserBuilder.phone b, User.address = UserBuilder.address b\<rparr>)"
    for b
    by (cases "UserBuilder.name b")
      (auto simp: build_def new_User_def falsy_def absent_or_blank_def trim_def)
  have "absent_or_blank (Some s) \<longleftrightarrow> blank s"
    by (simp add: absent_or_blank_def trim_Nil_iff)
  with fail [of b] result [of b] result [of "chain cs (new_UserBuilder n)"]
  show ?thesis
    by (simp add: chain_new_fields)
qed

text \<open>
  The two builders of the specification: Alice with an age and an address and no phone,
  and the empty name; also a name of two spaces, a name that is an em space \<open>U+2003\<close>, a
  name of a tab, an ideographic space, a byte order mark and a paragraph separator, and
  a missing name.
\<close>

lemma not_blank_Alice: "\<not> blank (utf16 ''Alice'')"
  by (simp add: blank_def utf16_def is_white_space_def)

lemma blank_spaces:
  "blank []" "blank (utf16 ''  '')" "blank [0x2003]" "blank [0x9, 0x3000, 0xFEFF, 0x2029]"
  by (simp_all add: blank_def utf16_def is_white_space_def)

theorem UserBuilder_build_witness:
  "build (chain [SetAge (Val 28), SetAddress (utf16 ''123 Main St'')]
            (new_UserBuilder (Some (utf16 ''Alice'')))) =
     Inr \<lparr>User.name = Some (utf16 ''Alice''), User.age = Some (Val 28), User.phone = None,
          User.address = Some (utf16 ''123 Main St'')\<rparr> \<and>
   chain [SetAge (Val 28), SetAddress (utf16 ''123 Main St'')]
       (new_UserBuilder (Some (utf16 ''Alice''))) =
     setAddress (utf16 ''123 Main St'') (setAge (Val 28) (new_UserBuilder (Some (utf16 ''Alice'')))) \<and>
   \<not> absent_or_blank (Some (utf16 ''Alice'')) \<and>
   absent_or_blank (Some []) \<and>
   build (new_UserBuilder (Some [])) = Inl (Error (utf16 ''Name is required!'')) \<and>
   build (new_UserBuilder (Some (utf16 ''  ''))) = Inl (Error (utf16 ''Name is required!'')) \<and>
   build (new_UserBuilder (Some [0x2003])) = Inl (Error (utf16 ''Name is required!'')) \<and>
   build (new_UserBuilder (Some [0x9, 0x3000, 0xFEFF, 0x2029])) =
     Inl (Error (utf16 ''Name is required!'')) \<and>
   build (new_UserBuilder None) = Inl (Error (utf16 ''Name is required!''))"
proof -
  let ?cs = "[SetAge (Val 28), SetAddress (utf16 ''123 Main St'')]"
  let ?alice = "utf16 ''Alice''"
  have absent: "\<not> absent_or_blank (Some ?alice)" "absent_or_blank (Some [])"
    "absent_or_blank (Some (utf16 ''  ''))" "absent_or_blank (Some [0x2003])"
    "absent_or_blank (Some [0x9, 0x3000, 0xFEFF, 0x2029])" "absent_or_blank None"
    using not_blank_Alice blank_spaces
    by (simp_all add: absent_or_blank_def trim_Nil_iff)
  have sets: "last_set age_of ?cs = Some (Val 28)" "last_set phone_of ?cs = None"
    "last_set address_of ?cs = Some (utf16 ''123 Main St'')"
    by (simp_all add: last_set_def List.map_filter_def)
  have steps: "chain ?cs (new_UserBuilder (Some ?alice)) =
     setAddress (utf16 ''123 Main St'') (setAge (Val 28) (new_UserBuilder (Some ?alice)))"
    by simp
  from UserBuilder_build [of "new_UserBuilder None" "[]" ?cs "Some ?alice"] absent(1) sets
  have alice: "build (chain ?cs (new_UserBuilder (Some ?alice))) =
     Inr \<lparr>User.name = Some ?alice, User.age = Some (Val 28), User.phone = None,
          User.address = Some (utf16 ''123 Main St'')\<rparr>"
    by simp
  have fails: "build (new_UserBuilder n) = Inl (Error (utf16 ''Name is required!''))"
    if "absent_or_blank n" for n
    using UserBuilder_build [of "new_UserBuilder n" "[]" "[]" n] that
    by (simp add: new_UserBuilder_def)
  from alice steps absent fails [OF absent(2)] fails [OF absent(3)] fails [OF absent(4)]
    fails [OF absent(5)] fails [OF absent(6)]
  show ?thesis
    by (simp only: simp_thms)
qed

section \<open>The database connection\<close>








section \<open>The navigator\<close>

subsection \<open>Quotients and their doubles\<close>

lemma Number_for_half: "Number_for (1 / 2) = Val (1 / 2)"
  by (subst Number_for_eval(1) [of "- 1"]) (simp_all add: power_int_minus round_ties_even_def)

lemma Number_for_sixtieth: "Number_for (1 / 60) = Val (4803839602528529 / 288230376151711744)"
  by (subst Number_for_eval(1) [of "- 6"]) (simp_all add: power_int_minus round_ties_even_def)

lemma Number_for_nine_sixtieths:
  "Number_for (3 / 20) = Val (5404319552844595 / 36028797018963968)"
  by (subst Number_for_eval(1) [of "- 3"]) (simp_all add: power_int_minus round_ties_even_def)

lemma divide_Val:
  assumes "0 < s"
  shows "Number_divide (Val x) (Val s) = (if x = 0 then Val 0 else Number_for (x / s))"
  using assms by (simp add: Number_divide_def signed_zero_def)

lemma divide_Val_double:
  assumes "0 < s" "is_double (x / s)"
  shows "Number_divide (Val x) (Val s) = Val (x / s)"
  using assms by (auto simp: divide_Val is_double_def)

subsection \<open>The lines of a route\<close>

lemma toFixed_half: "toFixed ns (Val (1 / 2)) 1 = ''0.5''"
  by (simp add: toFixed_finite_def Let_def decimal.simps digit_char_simps)

lemma toFixed_two: "toFixed ns (Val 2) 1 = ''2.0''"
  by (simp add: toFixed_finite_def Let_def decimal.simps digit_char_simps)

lemma toFixed_nine_sixtieths:
  "toFixed ns (Val (5404319552844595 / 36028797018963968)) 1 = ''0.1''"
  by (simp add: toFixed_finite_def Let_def decimal.simps digit_char_simps)

lemma ToString_30: "ToString ns (Val 30) = ''30''"
  by (simp add: Number_toString_def decimal.simps digit_char_simps)

lemma buildRoute_lines:
  "buildRoute ns start dest distance (this, out) =
     (this,
      calculateRoute (routeStrategy this) start dest out @
      [utf16 ''Distance: '' @ utf16 (ToString ns distance) @ utf16 '' km'',
       utf16 ''Estimated time: '' @
         utf16 (toFixed ns (getEstimatedTime (routeStrategy this) distance) 1) @
         utf16 '' hours''])"
  by (simp add: buildRoute_def Let_def console_log_def)

subsection \<open>The estimated time\<close>

text \<open>
  Claim C6, as it is worded, at the distance 1 by car. The claim gives the estimated time
  as the distance divided by 60. The quotient \<open>1 / 60\<close> is not a double; the method
  returns the double nearest to it, \<open>4803839602528529 / 2^58\<close>.
\<close>

theorem getEstimatedTime_is_rounded:
  "getEstimatedTime CarRouteStrategy (Val 1) = Val (4803839602528529 / 288230376151711744) \<and>
   getEstimatedTime CarRouteStrategy (Val 1) \<noteq> Val (1 / 60)"
  by (simp add: divide_Val Number_for_sixtieth)

text \<open>
  Claim C6, amended. For every distance \<open>d\<close>, a number of the language, the estimated time
  is the quotient of the language \<open>d / 60\<close> by car, \<open>d / 15\<close> by bike and \<open>d / 5\<close> on foot.
  For a finite distance other than zero this is the double nearest to the quotient of the
  two values; it is the quotient itself whenever the quotient is a double. For the route
  from Home to Office of 30 km the quotients are the doubles \<open>1 / 2\<close> by car and \<open>2\<close> by
  bike: a navigator with the car strategy prints the estimated time \<open>0.5 hours\<close>, and after
  the switch to the bike strategy the same route prints \<open>2.0 hours\<close>.
\<close>

theorem getEstimatedTime_speeds:
  "getEstimatedTime CarRouteStrategy d = Number_divide d (Val 60) \<and>
   getEstimatedTime BikeRouteStrategy d = Number_divide d (Val 15) \<and>
   getEstimatedTime WalkingRouteStrategy d = Number_divide d (Val 5) \<and>
   (x \<noteq> 0 \<longrightarrow>
      getEstimatedTime CarRouteStrategy (Val x) = Number_for (x / 60) \<and>
      getEstimatedTime BikeRouteStrategy (Val x) = Number_for (x / 15) \<and>
      getEstimatedTime WalkingRouteStrategy (Val x) = Number_for (x / 5)) \<and>
   (is_double (x / 60) \<longrightarrow> getEstimatedTime CarRouteStrategy (Val x) = Val (x / 60)) \<and>
   (is_double (x / 15) \<longrightarrow> getEstimatedTime BikeRouteStrategy (Val x) = Val (x / 15)) \<and>
   (is_double (x / 5) \<longrightarrow> getEstimatedTime WalkingRouteStrategy (Val x) = Val (x / 5)) \<and>
   getEstimatedTime CarRouteStrategy (Val 30) = Val (1 / 2) \<and>
   getEstimatedTime BikeRouteStrategy (Val 30) = Val 2 \<and>
   buildRoute ns (utf16 ''Home'') (utf16 ''Office'') (Val 30)
       (new_Navigator CarRouteStrategy, out) =
     (new_Navigator CarRouteStrategy,
      out @ [utf16 ''Car Route: Home '' @ arrow @ utf16 '' Office'',
             utf16 ''Distance: 30 km'', utf16 ''Estimated time: 0.5 hours'']) \<and>
   buildRoute ns (utf16 ''Home'') (utf16 ''Office'') (Val 30)
     (setRouteStrategy BikeRouteStrategy (new_Navigator CarRouteStrategy, out)) =
     (new_Navigator BikeRouteStrategy,
      out @ [[0xA] @ check_mark @ utf16 '' Route strategy changed!'' @ [0xA],
             utf16 ''Bike Route: Home '' @ arrow @ utf16 '' Office'',
             utf16 ''Distance: 30 km'', utf16 ''Estimated time: 2.0 hours''])"
proof -
  have half: "getEstimatedTime CarRouteStrategy (Val 30) = Val (1 / 2)"
    by (simp add: divide_Val Number_for_half)
  have two: "getEstimatedTime BikeRouteStrategy (Val 30) = Val 2"
    using Number_for_whole [of 2] by (simp add: divide_Val)
  have car: "buildRoute ns (utf16 ''Home'') (utf16 ''Office'') (Val 30)
       (new_Navigator CarRouteStrategy, out) =
     (new_Navigator CarRouteStrategy,
      out @ [utf16 ''Car Route: Home '' @ arrow @ utf16 '' Office'',
             utf16 ''Distance: 30 km'', utf16 ''Estimated time: 0.5 hours''])"
    unfolding buildRoute_lines
    by (simp add: new_Navigator_def half toFixed_half [unfolded One_nat_def] ToString_30
        console_log_def utf16_def del: getEstimatedTime.simps ToString.simps toFixed.simps)
  have bike: "buildRoute ns (utf16 ''Home'') (utf16 ''Office'') (Val 30)
     (setRouteStrategy BikeRouteStrategy (new_Navigator CarRouteStrategy, out)) =
     (new_Navigator BikeRouteStrategy,
      out @ [[0xA] @ check_mark @ utf16 '' Route strategy changed!'' @ [0xA],
             utf16 ''Bike Route: Home '' @ arrow @ utf16 '' Office'',
             utf16 ''Distance: 30 km'', utf16 ''Estimated time: 2.0 hours''])"
    unfolding setRouteStrategy_def buildRoute_lines
    by (simp add: new_Navigator_def two toFixed_two [unfolded One_nat_def] ToString_30
        console_log_def utf16_def buildRoute_lines
        del: getEstimatedTime.simps ToString.simps toFixed.simps)
  have rounded: "x \<noteq> 0 \<longrightarrow>
      getEstimatedTime CarRouteStrategy (Val x) = Number_for (x / 60) \<and>
      getEstimatedTime BikeRouteStrategy (Val x) = Number_for (x / 15) \<and>
      getEstimatedTime WalkingRouteStrategy (Val x) = Number_for (x / 5)"
    by (simp add: divide_Val)
  have exact: "is_double (x / 60) \<longrightarrow> getEstimatedTime CarRouteStrategy (Val x) = Val (x / 60)"
    "is_double (x / 15) \<longrightarrow> getEstimatedTime BikeRouteStrategy (Val x) = Val (x / 15)"
    "is_double (x / 5) \<longrightarrow> getEstimatedTime WalkingRouteStrategy (Val x) = Val (x / 5)"
    by (simp_all add: divide_Val_double)
  have speeds: "getEstimatedTime CarRouteStrategy d = Number_divide d (Val 60)"
    "getEstimatedTime BikeRouteStrategy d = Number_divide d (Val 15)"
    "getEstimatedTime WalkingRouteStrategy d = Number_divide d (Val 5)"
    by simp_all
  from speeds rounded exact half two car bike show ?thesis
    by (simp only: simp_thms)
qed

text \<open>
  The theorem at the distance 30, where the three quotients are doubles. At 9 km by car
  the quotient \<open>0.15\<close> is not one: the double below it is returned, and the route prints
  \<open>0.1 hours\<close>.
\<close>

theorem getEstimatedTime_speeds_witness:
  "is_double (30 / 60) \<and> is_double (30 / 15) \<and> is_double (30 / 5) \<and> (30 :: real) \<noteq> 0 \<and>
   getEstimatedTime CarRouteStrategy (Val 30) = Val (30 / 60) \<and>
   getEstimatedTime BikeRouteStrategy (Val 30) = Val (30 / 15) \<and>
   getEstimatedTime WalkingRouteStrategy (Val 30) = Val (30 / 5) \<and>
   getEstimatedTime WalkingRouteStrategy (Val 30) = Number_for (30 / 5) \<and>
   snd (buildRoute not_consulted (utf16 ''Home'') (utf16 ''Office'') (Val 30)
         (new_Navigator CarRouteStrategy, [])) =
     [utf16 ''Car Route: Home '' @ arrow @ utf16 '' Office'',
      utf16 ''Distance: 30 km'', utf16 ''Estimated time: 0.5 hours''] \<and>
   getEstimatedTime CarRouteStrategy (Val 9) = Val (5404319552844595 / 36028797018963968) \<and>
   toFixed not_consulted (getEstimatedTime CarRouteStrategy (Val 9)) 1 = ''0.1''"
proof -
  have doubles: "is_double (30 / 60)" "is_double (30 / 15)" "is_double (30 / 5)"
    using Number_for_half Number_for_whole [of 2] Number_for_whole [of 6]
    by (simp_all add: is_double_def)
  have nine: "getEstimatedTime CarRouteStrategy (Val 9) =
      Val (5404319552844595 / 36028797018963968)"
    by (simp add: divide_Val Number_for_nine_sixtieths)
  have printed: "toFixed not_consulted (getEstimatedTime CarRouteStrategy (Val 9)) 1 = ''0.1''"
    unfolding nine by (rule toFixed_nine_sixtieths)
  note at_30 = getEstimatedTime_speeds [of "Val 30" 30 not_consulted "[]"]
  from at_30 doubles have exact:
    "getEstimatedTime CarRouteStrategy (Val 30) = Val (30 / 60)"
    "getEstimatedTime BikeRouteStrategy (Val 30) = Val (30 / 15)"
    "getEstimatedTime WalkingRouteStrategy (Val 30) = Val (30 / 5)"
    by blast+
  from at_30 have rounded: "getEstimatedTime WalkingRouteStrategy (Val 30) = Number_for (30 / 5)"
    by simp
  from at_30 have route:
    "snd (buildRoute not_consulted (utf16 ''Home'') (utf16 ''Office'') (Val 30)
         (new_Navigator CarRouteStrategy, [])) =
     [utf16 ''Car Route: Home '' @ arrow @ utf16 '' Office'',
      utf16 ''Distance: 30 km'', utf16 ''Estimated time: 0.5 hours'']"
    by simp
  from doubles exact rounded route nine printed show ?thesis
    by (simp only: simp_thms)
qed

section \<open>The calculator\<close>







section \<open>The shapes\<close>

subsection \<open>Products and their doubles\<close>







subsection \<open>Four decimals of \<open>pi\<close>\<close>












subsection \<open>Areas\<close>




end
